theory Spec2Isabelle
  imports Complex_Main
begin

section \<open>The dance area of the town: data model\<close>

text \<open>
  The development embeds two TypeScript classes: the server-side \<open>DanceArea\<close>
  (townService/src/town/DanceArea.ts) and the client-side \<open>DanceAreaController\<close>
  (frontend/src/classes/DanceAreaController.ts).

  Conventions of the embedding.
  \<^item> A JavaScript \<open>number\<close> is a \<open>real\<close>: arithmetic is exact, and NaN, the
    infinities and IEEE rounding are not represented.
  \<^item> \<open>None\<close> stands for \<open>undefined\<close> wherever the program can meet it: a
    field the constructor guards with \<open>||\<close>, an array read out of range, a hole
    of \<open>new Array(10)\<close>.
  \<^item> A name that Isabelle does not accept or that HOL already uses is changed as
    little as possible: the private field \<open>_difficulty\<close> is \<open>difficulty'\<close>, the
    model field \<open>id\<close> is \<open>model_id\<close>, the accessor pair \<open>timer\<close> is
    \<open>get_timer\<close> and \<open>set_timer\<close>.
\<close>

subsection \<open>Types of CoveyTownSocket used by both classes\<close>

text \<open>The four directions \<open>'L'\<close>, \<open>'R'\<close>, \<open>'U'\<close>, \<open>'D'\<close>.\<close>

datatype ArrowDirection = L | R | U | D

text \<open>
  The four arrow glyphs, in the order of the source's \<open>displays\<close> array: the
  code points U+21E6 (leftwards white arrow), U+21E8 (rightwards), U+21E7 (upwards)
  and U+21E9 (downwards).
\<close>

datatype Display = ArrowLeft | ArrowRight | ArrowUp | ArrowDown

type_synonym Difficulty = real

record Arrow =
  display :: "Display option"
  direction :: "ArrowDirection option"
  duration :: real

record ScoreObject =
  userId :: string
  score :: real

text \<open>A leaderboard slot is \<open>None\<close> when it is a hole of \<open>new Array(10)\<close>.\<close>

type_synonym Leaderboard = "ScoreObject option list"

text \<open>
  The wire model \<open>DanceArea\<close> of CoveyTownSocket (imported as \<open>DanceAreaModel\<close>).
  The types of \<open>difficulty\<close> and \<open>leaderboard\<close> are parameters, so that one
  record serves twice: \<open>DanceAreaModel\<close> is the model as the type declares it, and
  \<open>DanceAreaModelArg\<close> is the object the server's constructor may receive at run
  time, in which these two fields, which it guards with \<open>||\<close>, may be undefined.
\<close>

record ('d, 'l) DanceAreaModelOf =
  model_id :: string
  difficulty :: 'd
  correct :: "Arrow list"
  userClicks :: "Arrow list"
  leaderboard :: 'l
  currentScore :: ScoreObject
  timer :: real

type_synonym DanceAreaModel = "(Difficulty, Leaderboard) DanceAreaModelOf"

type_synonym DanceAreaModelArg = "(Difficulty option, Leaderboard option) DanceAreaModelOf"

section \<open>The client: DanceAreaController\<close>

text \<open>
  The events of \<open>DanceAreaEvents\<close>, each with the argument its listeners receive.
\<close>

datatype DanceAreaEvents =
    difficultyChange Difficulty
  | currentScoreChange ScoreObject
  | timerChange real
  | correctChange "Arrow list"
  | userClicksChange "Arrow list"
  | leaderboardChange Leaderboard

text \<open>
  The controller owns \<open>_model\<close>. The field \<open>emitted\<close> records the calls of
  \<open>this.emit\<close> in order, the oldest first; what the listeners do is outside the class.
\<close>

record DanceAreaController =
  model' :: DanceAreaModel
  emitted :: "DanceAreaEvents list"

definition DanceAreaController_new :: "DanceAreaModel \<Rightarrow> DanceAreaController" where
  "DanceAreaController_new danceAreaModel = \<lparr>model' = danceAreaModel, emitted = []\<rparr>"

definition emit :: "DanceAreaEvents \<Rightarrow> DanceAreaController \<Rightarrow> DanceAreaController" where
  "emit e c = c\<lparr>emitted := emitted c @ [e]\<rparr>"

definition get_id :: "DanceAreaController \<Rightarrow> string" where
  "get_id c = model_id (model' c)"

text \<open>The source spells the getter of \<open>difficulty\<close> as \<open>defficulty\<close>.\<close>

definition get_defficulty :: "DanceAreaController \<Rightarrow> Difficulty" where
  "get_defficulty c = difficulty (model' c)"

definition set_difficulty :: "Difficulty \<Rightarrow> DanceAreaController \<Rightarrow> DanceAreaController" where
  "set_difficulty d c =
     (if difficulty (model' c) \<noteq> d
      then emit (difficultyChange d) (c\<lparr>model' := (model' c)\<lparr>difficulty := d\<rparr>\<rparr>)
      else c)"

definition get_timer :: "DanceAreaController \<Rightarrow> real" where
  "get_timer c = timer (model' c)"

definition set_timer :: "real \<Rightarrow> DanceAreaController \<Rightarrow> DanceAreaController" where
  "set_timer t c =
     (if timer (model' c) \<noteq> t
      then emit (timerChange t) (c\<lparr>model' := (model' c)\<lparr>timer := t\<rparr>\<rparr>)
      else c)"

definition get_currentScore :: "DanceAreaController \<Rightarrow> ScoreObject" where
  "get_currentScore c = currentScore (model' c)"

text \<open>
  The next four setters compare \<open>this._model.f\<close> with \<open>this.f\<close>, the getter of
  the same field, and not with their parameter. Both operands are one and the same
  JavaScript value, so comparing the values, as the model does, gives what the
  comparison of the references gives.
\<close>

definition set_currentScore :: "ScoreObject \<Rightarrow> DanceAreaController \<Rightarrow> DanceAreaController" where
  "set_currentScore cs c =
     (if currentScore (model' c) \<noteq> get_currentScore c
      then emit (currentScoreChange cs) (c\<lparr>model' := (model' c)\<lparr>currentScore := cs\<rparr>\<rparr>)
      else c)"

definition get_correct :: "DanceAreaController \<Rightarrow> Arrow list" where
  "get_correct c = correct (model' c)"

definition set_correct :: "Arrow list \<Rightarrow> DanceAreaController \<Rightarrow> DanceAreaController" where
  "set_correct cr c =
     (if correct (model' c) \<noteq> get_correct c
      then emit (correctChange cr) (c\<lparr>model' := (model' c)\<lparr>correct := cr\<rparr>\<rparr>)
      else c)"

definition get_userClicks :: "DanceAreaController \<Rightarrow> Arrow list" where
  "get_userClicks c = userClicks (model' c)"

definition set_userClicks :: "Arrow list \<Rightarrow> DanceAreaController \<Rightarrow> DanceAreaController" where
  "set_userClicks uc c =
     (if userClicks (model' c) \<noteq> get_userClicks c
      then emit (userClicksChange uc) (c\<lparr>model' := (model' c)\<lparr>userClicks := uc\<rparr>\<rparr>)
      else c)"

definition get_leaderboard :: "DanceAreaController \<Rightarrow> Leaderboard" where
  "get_leaderboard c = leaderboard (model' c)"

text \<open>
  The parameter of the leaderboard setter (named \<open>userClicks\<close> in the source) is
  never read: the assignment and the event both take \<open>this.leaderboard\<close>.
\<close>

definition set_leaderboard :: "Leaderboard \<Rightarrow> DanceAreaController \<Rightarrow> DanceAreaController" where
  "set_leaderboard unused c =
     (if leaderboard (model' c) \<noteq> get_leaderboard c
      then (let c1 = c\<lparr>model' := (model' c)\<lparr>leaderboard := get_leaderboard c\<rparr>\<rparr>
            in emit (leaderboardChange (get_leaderboard c1)) c1)
      else c)"

definition danceAreaModel :: "DanceAreaController \<Rightarrow> DanceAreaModel" where
  "danceAreaModel c = model' c"

text \<open>\<open>updateFrom\<close> calls three setters, in this order.\<close>

definition updateFrom :: "DanceAreaModel \<Rightarrow> DanceAreaController \<Rightarrow> DanceAreaController" where
  "updateFrom updatedModel c =
     (let c1 = set_difficulty (difficulty updatedModel) c;
          c2 = set_timer (timer updatedModel) c1
      in set_currentScore (currentScore updatedModel) c2)"

text \<open>
  The operations a client of the controller can invoke that write to it: the six
  setters and \<open>updateFrom\<close>. \<open>perform_all\<close> runs a sequence of them from left
  to right.
\<close>

datatype ControllerOp =
    SetDifficulty Difficulty
  | SetTimer real
  | SetCurrentScore ScoreObject
  | SetCorrect "Arrow list"
  | SetUserClicks "Arrow list"
  | SetLeaderboard Leaderboard
  | UpdateFrom DanceAreaModel

fun perform :: "ControllerOp \<Rightarrow> DanceAreaController \<Rightarrow> DanceAreaController" where
  "perform (SetDifficulty d) c = set_difficulty d c"
| "perform (SetTimer t) c = set_timer t c"
| "perform (SetCurrentScore cs) c = set_currentScore cs c"
| "perform (SetCorrect cr) c = set_correct cr c"
| "perform (SetUserClicks uc) c = set_userClicks uc c"
| "perform (SetLeaderboard lb) c = set_leaderboard lb c"
| "perform (UpdateFrom m) c = updateFrom m c"

fun perform_all :: "ControllerOp list \<Rightarrow> DanceAreaController \<Rightarrow> DanceAreaController" where
  "perform_all [] c = c"
| "perform_all (op # ops) c = perform_all ops (perform op c)"

section \<open>The server: DanceArea\<close>

subsection \<open>What DanceArea takes from outside its file\<close>

text \<open>
  Modelled from the spec: the class \<open>Player\<close> (lib/Player) is not among the
  sources. The spec's \<open>remove\<close> "clears the player's area reference and broadcasts
  that location change", so a player is its id together with the area reference
  \<open>location.interactableID\<close>, \<open>None\<close> when it is undefined.
\<close>

record Player =
  player_id :: string
  interactableID :: "string option"

text \<open>
  The \<open>BoundingBox\<close> of CoveyTownSocket, with the fields \<open>x\<close>, \<open>y\<close>,
  \<open>width\<close> and \<open>height\<close> (prefixed here, to leave \<open>x\<close> and \<open>y\<close> free as
  variables).
\<close>

record BoundingBox =
  box_x :: real
  box_y :: real
  box_width :: real
  box_height :: real

text \<open>
  The fields of \<open>ITiledMapObject\<close> that \<open>fromMapObject\<close> reads; \<open>width\<close> and
  \<open>height\<close> are optional.
\<close>

record ITiledMapObject =
  obj_name :: string
  obj_x :: real
  obj_y :: real
  obj_width :: "real option"
  obj_height :: "real option"

text \<open>
  The two events of the town's emitter that the area sends: a player's changed
  location and an area's changed state, which carries the area's full model.
\<close>

datatype TownEvent =
    playerMoved Player
  | interactableUpdate DanceAreaModel

text \<open>
  Modelled from the spec: the base class \<open>InteractableArea\<close> is not among the
  sources. By sections 4.1 and 6 of the spec it stores the id and the bounding box,
  manages the occupants and holds the town's emitter. Occupants are kept by player
  id, in the order of arrival; the emitter is represented by the events sent through
  it so far, the oldest first.
\<close>

record InteractableArea =
  id' :: string
  occupants' :: "string list"
  boundingBox :: BoundingBox
  townEmitter' :: "TownEvent list"

text \<open>
  Modelled from the spec: the constructor of \<open>InteractableArea\<close>, called as
  \<open>super(id, coordinates, townEmitter)\<close>, "sets id and bounding box from the base
  behavior (occupant list starts empty)".
\<close>

definition InteractableArea_new :: "string \<Rightarrow> BoundingBox \<Rightarrow> TownEvent list \<Rightarrow> InteractableArea" where
  "InteractableArea_new ident coordinates townEmitter =
     \<lparr>id' = ident, occupants' = [], boundingBox = coordinates, townEmitter' = townEmitter\<rparr>"

text \<open>
  Modelled from the spec: \<open>_emitAreaChanged\<close> of \<open>InteractableArea\<close> is not
  among the sources. By section 6 of the spec it is the "broadcast primitive that
  sends the area's full serialized model to every connected client in the town".
  The model is the one the subclass's \<open>toModel\<close> produces; the base class reaches
  it through the overridden method, which is the parameter \<open>model_of\<close> here.
\<close>

definition emitAreaChanged ::
    "('a InteractableArea_scheme \<Rightarrow> DanceAreaModel) \<Rightarrow> 'a InteractableArea_scheme \<Rightarrow>
     'a InteractableArea_scheme" where
  "emitAreaChanged model_of a =
     a\<lparr>townEmitter' := townEmitter' a @ [interactableUpdate (model_of a)]\<rparr>"

text \<open>
  Modelled from the spec: \<open>InteractableArea.remove\<close>, called as
  \<open>super.remove(player)\<close>, is not among the sources. By section 4.1 of the spec
  it "removes the player from the occupant set (base behavior: also clears the
  player's area reference and broadcasts that location change)", and "every
  occupant-list change must trigger a broadcast of this area's current model plus a
  broadcast of the player's updated location", the former through "the base class's
  occupant-change notification". So the base sends both: the player's changed
  location and then the area's model as it is after the removal. The repository's
  test of \<open>add\<close>, a method \<open>DanceArea\<close> inherits as it is, observes both
  broadcasts of the base in the same way. The function returns the player and the
  area as the call leaves them.
\<close>

definition InteractableArea_remove ::
    "('a InteractableArea_scheme \<Rightarrow> DanceAreaModel) \<Rightarrow> Player \<Rightarrow> 'a InteractableArea_scheme \<Rightarrow>
     Player \<times> 'a InteractableArea_scheme" where
  "InteractableArea_remove model_of player a =
     (let player1 = player\<lparr>interactableID := None\<rparr>;
          a1 = a\<lparr>occupants' := filter (\<lambda>eachPlayer. eachPlayer \<noteq> player_id player) (occupants' a),
                 townEmitter' := townEmitter' a @ [playerMoved player1]\<rparr>
      in (player1, emitAreaChanged model_of a1))"

subsection \<open>The class\<close>

definition ARROWLENGTH :: nat where
  "ARROWLENGTH = 20"

record DanceArea = InteractableArea +
  difficulty' :: Difficulty
  correct' :: "Arrow list"
  userClicks' :: "Arrow list"
  leaderboard' :: Leaderboard
  currentScore' :: ScoreObject
  timer' :: real

definition DanceArea_leaderboard :: "DanceArea \<Rightarrow> Leaderboard" where
  "DanceArea_leaderboard a = leaderboard' a"

definition directions :: "ArrowDirection list" where
  "directions = [L, R, U, D]"

definition displays :: "Display list" where
  "displays = [ArrowLeft, ArrowRight, ArrowUp, ArrowDown]"

text \<open>
  Reading a JavaScript array at an integral index: the element when the index is
  within the array, \<open>undefined\<close> otherwise.
\<close>

definition js_nth :: "'a list \<Rightarrow> int \<Rightarrow> 'a option" where
  "js_nth xs k = (if 0 \<le> k \<and> k < int (length xs) then Some (xs ! nat k) else None)"

text \<open>
  The random source: \<open>rnd n\<close> is what the \<open>n\<close>-th call of \<open>Math.random()\<close>
  returns, counted from the entry into the constructor. The language guarantees
  \<open>0 \<le> rnd n < 1\<close> and nothing else. Round \<open>i\<close> of the constructor's loop makes
  the calls \<open>3 * i\<close>, \<open>3 * i + 1\<close> and \<open>3 * i + 2\<close>, for the direction, the
  display and the duration, in this order.
\<close>

function arrowLoop :: "(nat \<Rightarrow> real) \<Rightarrow> nat \<Rightarrow> Arrow list \<Rightarrow> Arrow list" where
  "arrowLoop rnd i acc =
     (if i < ARROWLENGTH
      then (let dir = js_nth directions \<lfloor>rnd (3 * i) * real (length directions)\<rfloor>;
                disp = js_nth displays \<lfloor>rnd (3 * i + 1) * real (length displays)\<rfloor>;
                dur = real_of_int \<lfloor>rnd (3 * i + 2) * 10\<rfloor> + 1
            in arrowLoop rnd (i + 1) (acc @ [\<lparr>display = disp, direction = dir, duration = dur\<rparr>]))
      else acc)"
  by pat_completeness auto
termination
  by (relation "measure (\<lambda>(rnd, i, acc). ARROWLENGTH - i)") auto

declare arrowLoop.simps [simp del]

text \<open>
  The constructor. \<open>difficulty || 15\<close> takes 15 when the difficulty is undefined
  or 0; \<open>leaderboard || new Array(10)\<close> takes ten holes when the leaderboard is
  undefined (an array, even an empty one, is truthy). The fields \<open>correct\<close>,
  \<open>userClicks\<close> and \<open>timer\<close> of the argument are not read.
\<close>

definition DanceArea_new ::
    "DanceAreaModelArg \<Rightarrow> BoundingBox \<Rightarrow> TownEvent list \<Rightarrow> (nat \<Rightarrow> real) \<Rightarrow> DanceArea" where
  "DanceArea_new m coordinates townEmitter rnd =
     (let base = InteractableArea_new (model_id m) coordinates townEmitter;
          d = (case difficulty m of None \<Rightarrow> 15 | Some v \<Rightarrow> if v = 0 then 15 else v);
          lb = (case leaderboard m of None \<Rightarrow> replicate 10 None | Some l \<Rightarrow> l)
      in \<lparr>id' = id' base, occupants' = occupants' base, boundingBox = boundingBox base,
          townEmitter' = townEmitter' base,
          difficulty' = d,
          correct' = arrowLoop rnd 0 [],
          userClicks' = [],
          leaderboard' = lb,
          currentScore' = currentScore m,
          timer' = real ARROWLENGTH * d\<rparr>)"

definition updateModel :: "DanceAreaModel \<Rightarrow> DanceArea \<Rightarrow> DanceArea" where
  "updateModel updatedModel a =
     a\<lparr>difficulty' := difficulty updatedModel,
       correct' := correct updatedModel,
       userClicks' := userClicks updatedModel,
       leaderboard' := leaderboard updatedModel,
       currentScore' := currentScore updatedModel,
       timer' := timer updatedModel\<rparr>"

definition toModel :: "DanceArea \<Rightarrow> DanceAreaModel" where
  "toModel a =
     \<lparr>model_id = id' a,
      difficulty = difficulty' a,
      correct = correct' a,
      userClicks = userClicks' a,
      leaderboard = leaderboard' a,
      currentScore = currentScore' a,
      timer = timer' a\<rparr>"

text \<open>
  \<open>remove\<close>. The base's \<open>remove\<close> runs first, with this class's \<open>toModel\<close>
  behind its broadcast. The assignments of the reset are made one after the other,
  as in the source, so that the timer is computed from the difficulty just
  assigned; the leaderboard is assigned its own value, read through the getter.
  The broadcast at the end is outside the conditional.
\<close>

definition remove :: "Player \<Rightarrow> DanceArea \<Rightarrow> Player \<times> DanceArea" where
  "remove player a =
     (let (player1, a1) = InteractableArea_remove toModel player a;
          a2 = (if length (occupants' a1) = 0
                then (let b1 = a1\<lparr>difficulty' := 15\<rparr>;
                          b2 = b1\<lparr>correct' := []\<rparr>;
                          b3 = b2\<lparr>userClicks' := []\<rparr>;
                          b4 = b3\<lparr>leaderboard' := DanceArea_leaderboard b3\<rparr>;
                          b5 = b4\<lparr>currentScore' := \<lparr>userId = '''', score = 0\<rparr>\<rparr>
                      in b5\<lparr>timer' := real ARROWLENGTH * difficulty' b5\<rparr>)
                else a1)
      in (player1, emitAreaChanged toModel a2))"

datatype error = Error string

text \<open>
  \<open>fromMapObject\<close>: \<open>!mapObject.width\<close> holds when the width is undefined or 0,
  and likewise for the height.
\<close>

definition fromMapObject ::
    "ITiledMapObject \<Rightarrow> TownEvent list \<Rightarrow> (nat \<Rightarrow> real) \<Rightarrow> error + DanceArea" where
  "fromMapObject mapObject townEmitter rnd =
     (case (obj_width mapObject, obj_height mapObject) of
        (Some w, Some h) \<Rightarrow>
          if w = 0 \<or> h = 0 then Inl (Error ''missing width/height for map object'')
          else
            (let box = \<lparr>box_x = obj_x mapObject, box_y = obj_y mapObject,
                        box_width = w, box_height = h\<rparr>
             in Inr (DanceArea_new
                  \<lparr>model_id = obj_name mapObject,
                   difficulty = Some 15,
                   correct = [],
                   userClicks = [],
                   leaderboard = Some [],
                   currentScore = \<lparr>userId = '''', score = 0\<rparr>,
                   timer = real ARROWLENGTH * 15\<rparr>
                  box townEmitter rnd))
      | _ \<Rightarrow> Inl (Error ''missing width/height for map object''))"

section \<open>Concrete inputs\<close>

text \<open>
  The inputs at which the theorems below are exercised. Most are taken from the
  repository's own tests of \<open>DanceArea\<close>: the map object of the test of
  \<open>fromMapObject\<close>, the model the test area is built from, and the model its
  test of \<open>updateModel\<close> sends.
\<close>

text \<open>A random source whose every call returns one half.\<close>

definition halves :: "nat \<Rightarrow> real" where
  "halves n = 1 / 2"

definition testMapObject :: ITiledMapObject where
  "testMapObject =
     \<lparr>obj_name = ''name'', obj_x = 30, obj_y = 20, obj_width = Some 10, obj_height = Some 20\<rparr>"

definition testAreaBox :: BoundingBox where
  "testAreaBox = \<lparr>box_x = 100, box_y = 100, box_width = 100, box_height = 100\<rparr>"

definition testModel :: DanceAreaModel where
  "testModel =
     \<lparr>model_id = ''area'', difficulty = 15, correct = [], userClicks = [], leaderboard = [],
      currentScore = \<lparr>userId = ''p1'', score = 0\<rparr>, timer = 300\<rparr>"

text \<open>The same model as the constructor receives it, with the difficulty given or not.\<close>

definition testModelArg :: "Difficulty option \<Rightarrow> DanceAreaModelArg" where
  "testModelArg d =
     \<lparr>model_id = ''area'', difficulty = d, correct = [], userClicks = [],
      leaderboard = Some [], currentScore = \<lparr>userId = ''p1'', score = 0\<rparr>, timer = 300\<rparr>"

definition newModel :: DanceAreaModel where
  "newModel =
     \<lparr>model_id = ''other'', difficulty = 10,
      correct = [\<lparr>display = Some ArrowLeft, direction = Some L, duration = 1\<rparr>],
      userClicks = [\<lparr>display = Some ArrowRight, direction = Some R, duration = 1 / 2\<rparr>],
      leaderboard = [Some \<lparr>userId = ''other'', score = 100\<rparr>],
      currentScore = \<lparr>userId = ''other'', score = 100\<rparr>, timer = 200\<rparr>"

text \<open>An area in the middle of a game, with the given occupants.\<close>

definition testArea :: "string list \<Rightarrow> DanceArea" where
  "testArea occupants =
     \<lparr>id' = ''area'', occupants' = occupants, boundingBox = testAreaBox,
      townEmitter' = [],
      difficulty' = 10,
      correct' = [\<lparr>display = Some ArrowLeft, direction = Some L, duration = 1\<rparr>],
      userClicks' = [\<lparr>display = Some ArrowRight, direction = Some R, duration = 1 / 2\<rparr>],
      leaderboard' = [Some \<lparr>userId = ''p2'', score = 100\<rparr>],
      currentScore' = \<lparr>userId = ''p1'', score = 40\<rparr>,
      timer' = 120\<rparr>"

text \<open>
  The map object of the repository's test of the failure of \<open>fromMapObject\<close>: it
  has a name and a position and neither width nor height.
\<close>

definition testMapObjectNoSize :: ITiledMapObject where
  "testMapObjectNoSize =
     \<lparr>obj_name = ''name'', obj_x = 0, obj_y = 0, obj_width = None, obj_height = None\<rparr>"

text \<open>
  An area whose game has not started: its fields are those a reset leaves, as
  when a player enters an area that was emptied before.
\<close>

definition idleArea :: "string list \<Rightarrow> DanceArea" where
  "idleArea occupants =
     \<lparr>id' = ''area'', occupants' = occupants, boundingBox = testAreaBox,
      townEmitter' = [],
      difficulty' = 15,
      correct' = [],
      userClicks' = [],
      leaderboard' = [Some \<lparr>userId = ''p2'', score = 100\<rparr>],
      currentScore' = \<lparr>userId = '''', score = 0\<rparr>,
      timer' = 300\<rparr>"

definition testPlayer :: Player where
  "testPlayer = \<lparr>player_id = ''p1'', interactableID = Some ''area''\<rparr>"

section \<open>The controller: what its setters do\<close>

lemma set_difficulty_id: "get_id (set_difficulty d c) = get_id c"
  by (simp add: set_difficulty_def get_id_def emit_def)

lemma set_timer_id: "get_id (set_timer t c) = get_id c"
  by (simp add: set_timer_def get_id_def emit_def)

text \<open>
  A setter that compares the cached field with itself never enters its branch: it
  returns the controller as it found it, model and events alike.
\<close>

lemma set_currentScore_same: "set_currentScore cs c = c"
  by (simp add: set_currentScore_def get_currentScore_def)

lemma set_correct_same: "set_correct cr c = c"
  by (simp add: set_correct_def get_correct_def)

lemma set_userClicks_same: "set_userClicks uc c = c"
  by (simp add: set_userClicks_def get_userClicks_def)

lemma set_leaderboard_same: "set_leaderboard lb c = c"
  by (simp add: set_leaderboard_def get_leaderboard_def)

lemma updateFrom_id: "get_id (updateFrom m c) = get_id c"
  by (simp add: updateFrom_def Let_def set_currentScore_same set_timer_id set_difficulty_id)

lemma perform_id: "get_id (perform op c) = get_id c"
  by (cases op)
     (simp_all add: set_difficulty_id set_timer_id set_currentScore_same set_correct_same
        set_userClicks_same set_leaderboard_same updateFrom_id)

text \<open>
  What \<open>updateFrom\<close> does to the model, for every controller and every incoming
  model: the difficulty and the timer are taken over, and nothing else changes.
\<close>

lemma updateFrom_model:
  "model' (updateFrom m c) = (model' c)\<lparr>difficulty := difficulty m, timer := timer m\<rparr>"
  by (simp add: updateFrom_def Let_def set_currentScore_same set_timer_def set_difficulty_def
        emit_def)

text \<open>
  Claim C7. Invoking the difficulty setter with the value the controller already
  caches emits no event. Invoking it with another value emits exactly one
  \<open>difficultyChange\<close> event, which carries the new value. In both cases the
  accessor returns the value of the invocation afterwards.
\<close>

theorem C7_difficulty_setter:
  "(d = get_defficulty c \<longrightarrow> emitted (set_difficulty d c) = emitted c) \<and>
   (d \<noteq> get_defficulty c \<longrightarrow> emitted (set_difficulty d c) = emitted c @ [difficultyChange d]) \<and>
   get_defficulty (set_difficulty d c) = d"
  by (simp add: set_difficulty_def get_defficulty_def emit_def)

theorem C7_difficulty_setter_witness:
  "get_defficulty (DanceAreaController_new testModel) = 15 \<and>
   emitted (set_difficulty 15 (DanceAreaController_new testModel)) = [] \<and>
   emitted (set_difficulty 10 (DanceAreaController_new testModel)) = [difficultyChange 10] \<and>
   get_defficulty (set_difficulty 10 (DanceAreaController_new testModel)) = 10"
  using C7_difficulty_setter [of 15 "DanceAreaController_new testModel"]
    C7_difficulty_setter [of 10 "DanceAreaController_new testModel"]
  by (simp add: get_defficulty_def DanceAreaController_new_def testModel_def)

text \<open>
  Claim C9. For every controller and every value, the setters of \<open>correct\<close>,
  \<open>userClicks\<close> and \<open>leaderboard\<close> leave the cached model as it was and emit
  no event: the model and the events after the call are those before it.
\<close>

theorem C9_setters_inert:
  "model' (set_correct cr c) = model' c \<and> emitted (set_correct cr c) = emitted c \<and>
   model' (set_userClicks uc c) = model' c \<and> emitted (set_userClicks uc c) = emitted c \<and>
   model' (set_leaderboard lb c) = model' c \<and> emitted (set_leaderboard lb c) = emitted c"
  by (simp add: set_correct_def get_correct_def set_userClicks_def get_userClicks_def
        set_leaderboard_def get_leaderboard_def)

text \<open>
  Claim C10. The \<open>id\<close> accessor returns the same value after any sequence of
  setter invocations and \<open>updateFrom\<close> calls as before it, whatever the state
  \<open>c\<close> the sequence starts from, the state just after construction included.
\<close>

theorem C10_id_constant:
  "get_id (perform_all ops c) = get_id c \<and>
   get_id (perform_all ops (DanceAreaController_new m)) = get_id (DanceAreaController_new m)"
proof -
  have "get_id (perform_all ops c') = get_id c'" for c'
  proof (induction ops arbitrary: c')
    case Nil
    show ?case by simp
  next
    case (Cons op ops)
    have "get_id (perform_all (op # ops) c') = get_id (perform op c')"
      using Cons.IH [of "perform op c'"] by simp
    also have "\<dots> = get_id c'"
      by (rule perform_id)
    finally show ?case .
  qed
  then show ?thesis
    by simp
qed

text \<open>
  Claim C6, at the input where the code departs from it. The controller is built
  from \<open>testModel\<close> and receives \<open>newModel\<close>, whose six fields all differ from
  the cached ones. The difficulty and the timer are taken over and their two
  events are emitted; \<open>correct\<close>, \<open>userClicks\<close> and \<open>leaderboard\<close> stay. The
  current score stays as well: it is still the score of \<open>p1\<close>, not the incoming
  score of \<open>other\<close>, and no \<open>currentScoreChange\<close> is emitted.
\<close>

theorem C6_updateFrom_keeps_currentScore:
  "updateFrom newModel (DanceAreaController_new testModel) =
     \<lparr>model' = testModel\<lparr>difficulty := 10, timer := 200\<rparr>,
      emitted = [difficultyChange 10, timerChange 200]\<rparr> \<and>
   get_currentScore (updateFrom newModel (DanceAreaController_new testModel)) =
     \<lparr>userId = ''p1'', score = 0\<rparr> \<and>
   currentScore newModel = \<lparr>userId = ''other'', score = 100\<rparr>"
  by (simp add: updateFrom_def Let_def set_difficulty_def set_timer_def set_currentScore_def
        get_currentScore_def emit_def DanceAreaController_new_def testModel_def newModel_def)

section \<open>The server: construction\<close>

text \<open>
  A random number \<open>r\<close> with \<open>0 \<le> r < 1\<close>, scaled by \<open>n\<close> and floored, is an
  index from \<open>0\<close> to \<open>n - 1\<close>.
\<close>

lemma floor_times_range:
  fixes r :: real
  assumes "0 \<le> r" and "r < 1" and "0 < n"
  shows "0 \<le> \<lfloor>r * real n\<rfloor> \<and> \<lfloor>r * real n\<rfloor> < int n"
proof -
  have "0 \<le> r * real n"
    using assms by simp
  then have lo: "0 \<le> \<lfloor>r * real n\<rfloor>"
    by simp
  have "r * real n < 1 * real n"
    using assms by (intro mult_strict_right_mono) simp_all
  then have "r * real n < real_of_int (int n)"
    by simp
  then have hi: "\<lfloor>r * real n\<rfloor> < int n"
    by (simp only: floor_less_iff)
  from lo hi show ?thesis ..
qed

text \<open>So the read of a non-empty array at such an index is never undefined.\<close>

lemma js_nth_random:
  fixes r :: real
  assumes "0 \<le> r" and "r < 1" and "xs \<noteq> []"
  shows "js_nth xs \<lfloor>r * real (length xs)\<rfloor> \<in> Some ` set xs"
proof -
  have "0 < length xs"
    using assms(3) by simp
  from floor_times_range [OF assms(1) assms(2) this]
  have k: "0 \<le> \<lfloor>r * real (length xs)\<rfloor>" "\<lfloor>r * real (length xs)\<rfloor> < int (length xs)"
    by simp_all
  then have "nat \<lfloor>r * real (length xs)\<rfloor> < length xs"
    by linarith
  then have "xs ! nat \<lfloor>r * real (length xs)\<rfloor> \<in> set xs"
    by (rule nth_mem)
  with k show ?thesis
    by (simp add: js_nth_def)
qed

lemma duration_random:
  fixes r :: real
  assumes "0 \<le> r" and "r < 1"
  shows "\<exists>k\<in>{1..10}. real_of_int \<lfloor>r * 10\<rfloor> + 1 = real_of_int k"
proof -
  from floor_times_range [OF assms, of 10]
  have "0 \<le> \<lfloor>r * 10\<rfloor>" and "\<lfloor>r * 10\<rfloor> < 10"
    by simp_all
  then have "\<lfloor>r * 10\<rfloor> + 1 \<in> {1..10}"
    by simp
  moreover have "real_of_int \<lfloor>r * 10\<rfloor> + 1 = real_of_int (\<lfloor>r * 10\<rfloor> + 1)"
    by simp
  ultimately show ?thesis ..
qed

text \<open>
  The loop adds one arrow for each round that is left, whatever the random source
  returns.
\<close>

lemma arrowLoop_length: "length (arrowLoop rnd i acc) = length acc + (ARROWLENGTH - i)"
proof (induction rnd i acc rule: arrowLoop.induct)
  case (1 rnd i acc)
  show ?case
  proof (cases "i < ARROWLENGTH")
    case True
    with "1.IH" show ?thesis
      by (subst arrowLoop.simps) (simp add: Let_def)
  next
    case False
    then show ?thesis
      by (subst arrowLoop.simps) simp
  qed
qed

text \<open>The loop keeps the arrows it was given and adds only arrows within range.\<close>

lemma arrowLoop_arrows:
  assumes "\<forall>n. 0 \<le> rnd n \<and> rnd n < 1"
    and "\<forall>a\<in>set acc. (\<exists>k\<in>{1..10}. duration a = real_of_int k) \<and>
           direction a \<in> Some ` set directions \<and> display a \<in> Some ` set displays"
  shows "\<forall>a\<in>set (arrowLoop rnd i acc). (\<exists>k\<in>{1..10}. duration a = real_of_int k) \<and>
           direction a \<in> Some ` set directions \<and> display a \<in> Some ` set displays"
  using assms
proof (induction rnd i acc rule: arrowLoop.induct)
  case (1 rnd i acc)
  show ?case
  proof (cases "i < ARROWLENGTH")
    case True
    let ?dir = "js_nth directions \<lfloor>rnd (3 * i) * real (length directions)\<rfloor>"
    let ?disp = "js_nth displays \<lfloor>rnd (3 * i + 1) * real (length displays)\<rfloor>"
    let ?dur = "real_of_int \<lfloor>rnd (3 * i + 2) * 10\<rfloor> + 1"
    let ?new = "\<lparr>display = ?disp, direction = ?dir, duration = ?dur\<rparr>"
    have dir: "?dir \<in> Some ` set directions"
      using "1.prems"(1) by (intro js_nth_random) (simp_all add: directions_def)
    have disp: "?disp \<in> Some ` set displays"
      using "1.prems"(1) by (intro js_nth_random) (simp_all add: displays_def)
    have dur: "\<exists>k\<in>{1..10}. ?dur = real_of_int k"
      using "1.prems"(1) by (intro duration_random) simp_all
    have "\<forall>a\<in>set (acc @ [?new]). (\<exists>k\<in>{1..10}. duration a = real_of_int k) \<and>
            direction a \<in> Some ` set directions \<and> display a \<in> Some ` set displays"
      using "1.prems"(2) dir disp dur by simp
    from "1.IH" [OF True refl refl refl "1.prems"(1) this]
    show ?thesis
      by (subst arrowLoop.simps) (simp only: True if_True Let_def)
  next
    case False
    with "1.prems"(2) show ?thesis
      by (subst arrowLoop.simps) simp
  qed
qed

text \<open>With the source \<open>halves\<close> every round draws the same arrow.\<close>

lemma arrowLoop_halves:
  "arrowLoop halves i acc =
     acc @ replicate (ARROWLENGTH - i) \<lparr>display = Some ArrowUp, direction = Some U, duration = 6\<rparr>"
proof (induction halves i acc rule: arrowLoop.induct)
  case (1 i acc)
  show ?case
  proof (cases "i < ARROWLENGTH")
    case True
    then have "ARROWLENGTH - i = Suc (ARROWLENGTH - (i + 1))"
      by simp
    with True "1.hyps" [OF True refl refl refl] show ?thesis
      by (subst arrowLoop.simps)
         (simp add: Let_def halves_def js_nth_def directions_def displays_def)
  next
    case False
    then show ?thesis
      by (subst arrowLoop.simps) simp
  qed
qed

text \<open>
  \<open>fromMapObject\<close> fails exactly when the width or the height is undefined or 0.
  Otherwise it returns an area named and placed as the map object says, with
  difficulty 15, timer 300, no occupants, no clicks, an empty leaderboard, the
  empty score, and twenty arrows in \<open>correct\<close>.
\<close>

lemma fromMapObject_missing:
  assumes "obj_width obj = None \<or> obj_width obj = Some 0 \<or>
           obj_height obj = None \<or> obj_height obj = Some 0"
  shows "fromMapObject obj em rnd = Inl (Error ''missing width/height for map object'')"
  using assms by (auto simp add: fromMapObject_def split: option.splits)

lemma fromMapObject_valid:
  assumes "obj_width obj = Some w" and "w \<noteq> 0" and "obj_height obj = Some h" and "h \<noteq> 0"
  shows "\<exists>a. fromMapObject obj em rnd = Inr a \<and>
           id' a = obj_name obj \<and>
           boundingBox a = \<lparr>box_x = obj_x obj, box_y = obj_y obj, box_width = w, box_height = h\<rparr> \<and>
           occupants' a = [] \<and> townEmitter' a = em \<and>
           difficulty' a = 15 \<and> timer' a = 300 \<and>
           userClicks' a = [] \<and> leaderboard' a = [] \<and>
           currentScore' a = \<lparr>userId = '''', score = 0\<rparr> \<and>
           length (correct' a) = 20"
  using assms
  by (simp add: fromMapObject_def DanceArea_new_def InteractableArea_new_def Let_def
        arrowLoop_length ARROWLENGTH_def)

text \<open>
  Claim C1. For every outcome of the random source, that is for every sequence
  \<open>rnd\<close> of numbers at least 0 and below 1, the area built by the constructor
  from any model, box and emitter has exactly 20 entries in \<open>correct\<close>, and each
  entry has a duration that is an integer from 1 to 10, a direction among
  \<open>L\<close>, \<open>R\<close>, \<open>U\<close>, \<open>D\<close> and a display among the four glyphs (neither is
  undefined). The same holds of every area that \<open>fromMapObject\<close> returns.
\<close>

theorem C1_correct_generated:
  assumes "\<forall>n. 0 \<le> rnd n \<and> rnd n < 1"
  shows "(length (correct' (DanceArea_new m box em rnd)) = 20 \<and>
          (\<forall>a\<in>set (correct' (DanceArea_new m box em rnd)).
             (\<exists>k\<in>{1..10}. duration a = real_of_int k) \<and>
             direction a \<in> {Some L, Some R, Some U, Some D} \<and>
             display a \<in> {Some ArrowLeft, Some ArrowRight, Some ArrowUp, Some ArrowDown})) \<and>
         (\<forall>area. fromMapObject obj em rnd = Inr area \<longrightarrow>
            length (correct' area) = 20 \<and>
            (\<forall>a\<in>set (correct' area).
               (\<exists>k\<in>{1..10}. duration a = real_of_int k) \<and>
               direction a \<in> {Some L, Some R, Some U, Some D} \<and>
               display a \<in> {Some ArrowLeft, Some ArrowRight, Some ArrowUp, Some ArrowDown}))"
proof -
  have loop: "length (arrowLoop rnd 0 []) = 20 \<and>
      (\<forall>a\<in>set (arrowLoop rnd 0 []).
         (\<exists>k\<in>{1..10}. duration a = real_of_int k) \<and>
         direction a \<in> {Some L, Some R, Some U, Some D} \<and>
         display a \<in> {Some ArrowLeft, Some ArrowRight, Some ArrowUp, Some ArrowDown})"
    using arrowLoop_arrows [OF assms, of "[]" 0] arrowLoop_length [of rnd 0 "[]"]
    by (simp add: ARROWLENGTH_def directions_def displays_def)
  have new: "correct' (DanceArea_new m' box' em rnd) = arrowLoop rnd 0 []" for m' box'
    by (simp add: DanceArea_new_def Let_def)
  have "\<exists>m' box'. area = DanceArea_new m' box' em rnd"
    if "fromMapObject obj em rnd = Inr area" for area
    using that by (auto simp add: fromMapObject_def Let_def split: option.splits if_splits)
  with loop new show ?thesis
    by metis
qed

theorem C1_correct_generated_witness:
  "(\<forall>n. 0 \<le> halves n \<and> halves n < 1) \<and>
   length (correct' (DanceArea_new (testModelArg (Some 15)) testAreaBox [] halves)) = 20 \<and>
   direction (hd (correct' (DanceArea_new (testModelArg (Some 15)) testAreaBox [] halves)))
     \<in> {Some L, Some R, Some U, Some D} \<and>
   (\<exists>area. fromMapObject testMapObject [] halves = Inr area \<and> length (correct' area) = 20)"
proof -
  have h: "\<forall>n. 0 \<le> halves n \<and> halves n < 1"
    by (simp add: halves_def)
  have v: "\<exists>area. fromMapObject testMapObject [] halves = Inr area"
    by (simp add: fromMapObject_def testMapObject_def Let_def)
  have ne: "correct' (DanceArea_new (testModelArg (Some 15)) testAreaBox [] halves) \<noteq> []"
    by (simp add: DanceArea_new_def Let_def arrowLoop_halves ARROWLENGTH_def)
  from C1_correct_generated [OF h, of "testModelArg (Some 15)" testAreaBox "[]" testMapObject]
    h v ne
  show ?thesis
    by (metis hd_in_set)
qed

text \<open>
  Claim C5. When the difficulty of the input model is undefined or 0, the built
  area has difficulty 15 and timer 300. A difficulty that is given and not 0 is
  kept. In every case the timer is 20 times the difficulty of the built area.
\<close>

theorem C5_default_difficulty:
  "(difficulty m = None \<or> difficulty m = Some 0 \<longrightarrow>
      difficulty' (DanceArea_new m box em rnd) = 15 \<and> timer' (DanceArea_new m box em rnd) = 300) \<and>
   (\<forall>v. difficulty m = Some v \<and> v \<noteq> 0 \<longrightarrow> difficulty' (DanceArea_new m box em rnd) = v) \<and>
   timer' (DanceArea_new m box em rnd) = 20 * difficulty' (DanceArea_new m box em rnd)"
  by (auto simp add: DanceArea_new_def Let_def ARROWLENGTH_def split: option.splits)

theorem C5_default_difficulty_witness:
  "difficulty (testModelArg None) = None \<and>
   difficulty' (DanceArea_new (testModelArg None) testAreaBox [] halves) = 15 \<and>
   timer' (DanceArea_new (testModelArg None) testAreaBox [] halves) = 300 \<and>
   difficulty (testModelArg (Some 0)) = Some 0 \<and>
   difficulty' (DanceArea_new (testModelArg (Some 0)) testAreaBox [] halves) = 15 \<and>
   timer' (DanceArea_new (testModelArg (Some 0)) testAreaBox [] halves) = 300 \<and>
   difficulty (testModelArg (Some 10)) = Some 10 \<and>
   difficulty' (DanceArea_new (testModelArg (Some 10)) testAreaBox [] halves) = 10 \<and>
   timer' (DanceArea_new (testModelArg (Some 10)) testAreaBox [] halves) = 200"
  using C5_default_difficulty [of "testModelArg None" testAreaBox "[]" halves]
    C5_default_difficulty [of "testModelArg (Some 0)" testAreaBox "[]" halves]
    C5_default_difficulty [of "testModelArg (Some 10)" testAreaBox "[]" halves]
  by (simp add: testModelArg_def)

text \<open>
  Claim C4 as stated fails at the map object of the repository's test of
  \<open>fromMapObject\<close>, here with the random source \<open>halves\<close>: the call succeeds,
  and the field \<open>correct\<close> of the area is not at the default the factory passes
  to the constructor, the empty sequence. It holds twenty arrows.
\<close>

theorem C4_correct_not_default_counterexample:
  "fromMapObject testMapObject [] halves =
     Inr \<lparr>id' = ''name'', occupants' = [],
          boundingBox = \<lparr>box_x = 30, box_y = 20, box_width = 10, box_height = 20\<rparr>,
          townEmitter' = [],
          difficulty' = 15,
          correct' = replicate 20 \<lparr>display = Some ArrowUp, direction = Some U, duration = 6\<rparr>,
          userClicks' = [],
          leaderboard' = [],
          currentScore' = \<lparr>userId = '''', score = 0\<rparr>,
          timer' = 300\<rparr> \<and>
   replicate 20 \<lparr>display = Some ArrowUp, direction = Some U, duration = 6\<rparr> \<noteq> []"
  by (simp add: fromMapObject_def testMapObject_def DanceArea_new_def InteractableArea_new_def
        Let_def arrowLoop_halves ARROWLENGTH_def)

text \<open>
  Claim C4, amended. For every map object, \<open>fromMapObject\<close> fails with the error
  of the source when the width or the height is undefined or 0. For every map
  object with a width and a height that are not 0 it returns an area whose id is
  the object's name, whose bounding box is the object's geometry, whose difficulty
  is 15, whose \<open>userClicks\<close> is empty, whose current score is the empty score and
  whose timer is 300. Its \<open>correct\<close> is not empty: it holds the 20 arrows that
  the constructor generates, whatever the random source returns.
\<close>

theorem C4_fromMapObject:
  "(obj_width obj = None \<or> obj_width obj = Some 0 \<or>
    obj_height obj = None \<or> obj_height obj = Some 0 \<longrightarrow>
      fromMapObject obj em rnd = Inl (Error ''missing width/height for map object'')) \<and>
   (\<forall>w h. obj_width obj = Some w \<and> w \<noteq> 0 \<and> obj_height obj = Some h \<and> h \<noteq> 0 \<longrightarrow>
      (\<exists>a. fromMapObject obj em rnd = Inr a \<and>
           id' a = obj_name obj \<and>
           boundingBox a =
             \<lparr>box_x = obj_x obj, box_y = obj_y obj, box_width = w, box_height = h\<rparr> \<and>
           difficulty' a = 15 \<and>
           length (correct' a) = 20 \<and>
           userClicks' a = [] \<and>
           currentScore' a = \<lparr>userId = '''', score = 0\<rparr> \<and>
           timer' a = 300))"
proof (intro conjI impI allI)
  assume "obj_width obj = None \<or> obj_width obj = Some 0 \<or>
          obj_height obj = None \<or> obj_height obj = Some 0"
  then show "fromMapObject obj em rnd = Inl (Error ''missing width/height for map object'')"
    by (rule fromMapObject_missing)
next
  fix w h
  assume "obj_width obj = Some w \<and> w \<noteq> 0 \<and> obj_height obj = Some h \<and> h \<noteq> 0"
  then have "obj_width obj = Some w" and "w \<noteq> 0" and "obj_height obj = Some h" and "h \<noteq> 0"
    by simp_all
  from fromMapObject_valid [OF this, of em rnd]
  show "\<exists>a. fromMapObject obj em rnd = Inr a \<and>
           id' a = obj_name obj \<and>
           boundingBox a =
             \<lparr>box_x = obj_x obj, box_y = obj_y obj, box_width = w, box_height = h\<rparr> \<and>
           difficulty' a = 15 \<and>
           length (correct' a) = 20 \<and>
           userClicks' a = [] \<and>
           currentScore' a = \<lparr>userId = '''', score = 0\<rparr> \<and>
           timer' a = 300"
    by blast
qed

theorem C4_fromMapObject_witness:
  "obj_width testMapObjectNoSize = None \<and>
   fromMapObject testMapObjectNoSize [] halves =
     Inl (Error ''missing width/height for map object'') \<and>
   obj_width testMapObject = Some 10 \<and> obj_height testMapObject = Some 20 \<and>
   (\<exists>a. fromMapObject testMapObject [] halves = Inr a \<and>
        id' a = ''name'' \<and>
        boundingBox a = \<lparr>box_x = 30, box_y = 20, box_width = 10, box_height = 20\<rparr> \<and>
        difficulty' a = 15 \<and>
        length (correct' a) = 20 \<and>
        userClicks' a = [] \<and>
        currentScore' a = \<lparr>userId = '''', score = 0\<rparr> \<and>
        timer' a = 300)"
proof -
  have none: "obj_width testMapObjectNoSize = None"
    by (simp add: testMapObjectNoSize_def)
  have some: "obj_width testMapObject = Some 10 \<and> (10::real) \<noteq> 0 \<and>
              obj_height testMapObject = Some 20 \<and> (20::real) \<noteq> 0"
    by (simp add: testMapObject_def)
  have fields: "obj_name testMapObject = ''name''" "obj_x testMapObject = 30"
      "obj_y testMapObject = 20"
    by (simp_all add: testMapObject_def)
  from C4_fromMapObject [of testMapObjectNoSize "[]" halves] none
  have failure: "fromMapObject testMapObjectNoSize [] halves =
      Inl (Error ''missing width/height for map object'')"
    by blast
  from C4_fromMapObject [of testMapObject "[]" halves] some
  have "\<exists>a. fromMapObject testMapObject [] halves = Inr a \<and>
        id' a = obj_name testMapObject \<and>
        boundingBox a =
          \<lparr>box_x = obj_x testMapObject, box_y = obj_y testMapObject,
           box_width = 10, box_height = 20\<rparr> \<and>
        difficulty' a = 15 \<and>
        length (correct' a) = 20 \<and>
        userClicks' a = [] \<and>
        currentScore' a = \<lparr>userId = '''', score = 0\<rparr> \<and>
        timer' a = 300"
    by blast
  with none failure some fields show ?thesis
    by simp
qed

section \<open>The server: updates and removal\<close>

text \<open>
  Claim C3. For every area \<open>a\<close> and every model \<open>m\<close>, \<open>toModel\<close> after
  \<open>updateModel m\<close> is \<open>m\<close> with the id of \<open>a\<close> in place of its own:
  \<open>updateModel\<close> leaves the id of the area as it was and sets the six other
  fields to the values of \<open>m\<close>.
\<close>

theorem C3_updateModel_toModel:
  "toModel (updateModel m a) = m\<lparr>model_id := id' a\<rparr> \<and>
   id' (updateModel m a) = id' a \<and>
   difficulty' (updateModel m a) = difficulty m \<and>
   correct' (updateModel m a) = correct m \<and>
   userClicks' (updateModel m a) = userClicks m \<and>
   leaderboard' (updateModel m a) = leaderboard m \<and>
   currentScore' (updateModel m a) = currentScore m \<and>
   timer' (updateModel m a) = timer m"
  by (simp add: toModel_def updateModel_def)

text \<open>Removing a player from the occupants: the two cases of \<open>remove\<close>.\<close>

lemma filter_last_empty:
  assumes "set xs = {x}"
  shows "filter (\<lambda>y. y \<noteq> x) xs = []"
  using assms by (auto simp add: filter_empty_conv)

lemma filter_others_nonempty:
  assumes "2 \<le> card (set xs)"
  shows "filter (\<lambda>y. y \<noteq> x) xs \<noteq> []"
proof
  assume "filter (\<lambda>y. y \<noteq> x) xs = []"
  then have "set xs \<subseteq> {x}"
    by (auto simp add: filter_empty_conv)
  then have "card (set xs) \<le> card {x}"
    by (intro card_mono) simp_all
  with assms show False
    by simp
qed

text \<open>
  Claim C2 as stated fails in its count of the broadcasts. The only occupant
  leaves an area whose game has not started. The call sends the player's changed
  location and then two area-state broadcasts, the base class's and the one at the
  end of \<open>remove\<close>, and here both carry the reset state.
\<close>

theorem C2_two_broadcasts_counterexample:
  "townEmitter' (snd (remove testPlayer (idleArea [''p1'']))) =
     [playerMoved \<lparr>player_id = ''p1'', interactableID = None\<rparr>,
      interactableUpdate
        \<lparr>model_id = ''area'', difficulty = 15, correct = [], userClicks = [],
         leaderboard = [Some \<lparr>userId = ''p2'', score = 100\<rparr>],
         currentScore = \<lparr>userId = '''', score = 0\<rparr>, timer = 300\<rparr>,
      interactableUpdate
        \<lparr>model_id = ''area'', difficulty = 15, correct = [], userClicks = [],
         leaderboard = [Some \<lparr>userId = ''p2'', score = 100\<rparr>],
         currentScore = \<lparr>userId = '''', score = 0\<rparr>, timer = 300\<rparr>] \<and>
   count_list (townEmitter' (snd (remove testPlayer (idleArea [''p1'']))))
     (interactableUpdate
        \<lparr>model_id = ''area'', difficulty = 15, correct = [], userClicks = [],
         leaderboard = [Some \<lparr>userId = ''p2'', score = 100\<rparr>],
         currentScore = \<lparr>userId = '''', score = 0\<rparr>, timer = 300\<rparr>) = 2"
  by (simp add: remove_def InteractableArea_remove_def Let_def emitAreaChanged_def
        toModel_def DanceArea_leaderboard_def ARROWLENGTH_def idleArea_def testPlayer_def
        testAreaBox_def)

text \<open>
  Claim C2, amended. When the player \<open>p\<close> is the only occupant of the area
  \<open>a\<close>, then after \<open>remove p\<close> the difficulty is 15, \<open>correct\<close> and
  \<open>userClicks\<close> are empty, the current score is the empty score, the timer is 300
  and the leaderboard is the one of \<open>a\<close>. The call sends three events: the
  player's changed location, the base class's area-state broadcast, which carries
  the state of \<open>a\<close> from before the reset, and last the area-state broadcast of
  \<open>remove\<close> itself, which carries the reset state.
\<close>

theorem C2_remove_last_occupant:
  assumes "set (occupants' a) = {player_id p}"
  shows "difficulty' (snd (remove p a)) = 15 \<and>
         correct' (snd (remove p a)) = [] \<and>
         userClicks' (snd (remove p a)) = [] \<and>
         currentScore' (snd (remove p a)) = \<lparr>userId = '''', score = 0\<rparr> \<and>
         timer' (snd (remove p a)) = 300 \<and>
         leaderboard' (snd (remove p a)) = leaderboard' a \<and>
         townEmitter' (snd (remove p a)) =
           townEmitter' a @
             [playerMoved (p\<lparr>interactableID := None\<rparr>),
              interactableUpdate
                \<lparr>model_id = id' a, difficulty = difficulty' a, correct = correct' a,
                 userClicks = userClicks' a, leaderboard = leaderboard' a,
                 currentScore = currentScore' a, timer = timer' a\<rparr>,
              interactableUpdate
                \<lparr>model_id = id' a, difficulty = 15, correct = [], userClicks = [],
                 leaderboard = leaderboard' a, currentScore = \<lparr>userId = '''', score = 0\<rparr>,
                 timer = 300\<rparr>]"
  using filter_last_empty [OF assms]
  by (simp add: remove_def InteractableArea_remove_def Let_def emitAreaChanged_def
        toModel_def DanceArea_leaderboard_def ARROWLENGTH_def)

theorem C2_remove_last_occupant_witness:
  "set (occupants' (testArea [''p1''])) = {player_id testPlayer} \<and>
   difficulty' (snd (remove testPlayer (testArea [''p1'']))) = 15 \<and>
   correct' (snd (remove testPlayer (testArea [''p1'']))) = [] \<and>
   userClicks' (snd (remove testPlayer (testArea [''p1'']))) = [] \<and>
   currentScore' (snd (remove testPlayer (testArea [''p1'']))) = \<lparr>userId = '''', score = 0\<rparr> \<and>
   timer' (snd (remove testPlayer (testArea [''p1'']))) = 300 \<and>
   leaderboard' (snd (remove testPlayer (testArea [''p1''])))
     = [Some \<lparr>userId = ''p2'', score = 100\<rparr>] \<and>
   townEmitter' (snd (remove testPlayer (testArea [''p1'']))) =
     [playerMoved \<lparr>player_id = ''p1'', interactableID = None\<rparr>,
      interactableUpdate
        \<lparr>model_id = ''area'', difficulty = 10,
         correct = [\<lparr>display = Some ArrowLeft, direction = Some L, duration = 1\<rparr>],
         userClicks = [\<lparr>display = Some ArrowRight, direction = Some R, duration = 1 / 2\<rparr>],
         leaderboard = [Some \<lparr>userId = ''p2'', score = 100\<rparr>],
         currentScore = \<lparr>userId = ''p1'', score = 40\<rparr>, timer = 120\<rparr>,
      interactableUpdate
        \<lparr>model_id = ''area'', difficulty = 15, correct = [], userClicks = [],
         leaderboard = [Some \<lparr>userId = ''p2'', score = 100\<rparr>],
         currentScore = \<lparr>userId = '''', score = 0\<rparr>, timer = 300\<rparr>]"
proof -
  have h: "set (occupants' (testArea [''p1''])) = {player_id testPlayer}"
    by (simp add: testArea_def testPlayer_def)
  show ?thesis
    using h C2_remove_last_occupant [OF h]
    by (simp add: testArea_def testPlayer_def)
qed

text \<open>
  Claim C8 as stated fails in its count of the broadcasts. One of two occupants
  leaves an area in the middle of a game. Nothing is reset, and the call sends the
  player's changed location and then two area-state broadcasts, the base class's
  and the one at the end of \<open>remove\<close>, both carrying the unchanged model.
\<close>

theorem C8_two_broadcasts_counterexample:
  "townEmitter' (snd (remove testPlayer (testArea [''p1'', ''p2'']))) =
     [playerMoved \<lparr>player_id = ''p1'', interactableID = None\<rparr>,
      interactableUpdate (toModel (testArea [''p1'', ''p2''])),
      interactableUpdate (toModel (testArea [''p1'', ''p2'']))] \<and>
   toModel (testArea [''p1'', ''p2'']) =
     \<lparr>model_id = ''area'', difficulty = 10,
      correct = [\<lparr>display = Some ArrowLeft, direction = Some L, duration = 1\<rparr>],
      userClicks = [\<lparr>display = Some ArrowRight, direction = Some R, duration = 1 / 2\<rparr>],
      leaderboard = [Some \<lparr>userId = ''p2'', score = 100\<rparr>],
      currentScore = \<lparr>userId = ''p1'', score = 40\<rparr>, timer = 120\<rparr> \<and>
   count_list (townEmitter' (snd (remove testPlayer (testArea [''p1'', ''p2'']))))
     (interactableUpdate (toModel (testArea [''p1'', ''p2'']))) = 2"
  by (simp add: remove_def InteractableArea_remove_def Let_def emitAreaChanged_def
        toModel_def testArea_def testPlayer_def)

text \<open>
  Claim C8, amended. When the area \<open>a\<close> has at least two occupants and the
  player \<open>p\<close> is one of them, then after \<open>remove p\<close> the difficulty,
  \<open>correct\<close>, \<open>userClicks\<close>, the leaderboard, the current score and the timer
  are those of \<open>a\<close>. The call sends three events: the player's changed location,
  the base class's area-state broadcast and last the area-state broadcast of
  \<open>remove\<close> itself; both broadcasts carry the unchanged model.
\<close>

theorem C8_remove_with_others:
  assumes "player_id p \<in> set (occupants' a)" and "2 \<le> card (set (occupants' a))"
  shows "difficulty' (snd (remove p a)) = difficulty' a \<and>
         correct' (snd (remove p a)) = correct' a \<and>
         userClicks' (snd (remove p a)) = userClicks' a \<and>
         leaderboard' (snd (remove p a)) = leaderboard' a \<and>
         currentScore' (snd (remove p a)) = currentScore' a \<and>
         timer' (snd (remove p a)) = timer' a \<and>
         townEmitter' (snd (remove p a)) =
           townEmitter' a @
             [playerMoved (p\<lparr>interactableID := None\<rparr>),
              interactableUpdate
                \<lparr>model_id = id' a, difficulty = difficulty' a, correct = correct' a,
                 userClicks = userClicks' a, leaderboard = leaderboard' a,
                 currentScore = currentScore' a, timer = timer' a\<rparr>,
              interactableUpdate
                \<lparr>model_id = id' a, difficulty = difficulty' a, correct = correct' a,
                 userClicks = userClicks' a, leaderboard = leaderboard' a,
                 currentScore = currentScore' a, timer = timer' a\<rparr>]"
  using filter_others_nonempty [OF assms(2), of "player_id p"]
  by (simp add: remove_def InteractableArea_remove_def Let_def emitAreaChanged_def toModel_def)

theorem C8_remove_with_others_witness:
  "player_id testPlayer \<in> set (occupants' (testArea [''p1'', ''p2'', ''p3''])) \<and>
   2 \<le> card (set (occupants' (testArea [''p1'', ''p2'', ''p3'']))) \<and>
   difficulty' (snd (remove testPlayer (testArea [''p1'', ''p2'', ''p3'']))) = 10 \<and>
   timer' (snd (remove testPlayer (testArea [''p1'', ''p2'', ''p3'']))) = 120 \<and>
   currentScore' (snd (remove testPlayer (testArea [''p1'', ''p2'', ''p3''])))
     = \<lparr>userId = ''p1'', score = 40\<rparr> \<and>
   townEmitter' (snd (remove testPlayer (testArea [''p1'', ''p2'', ''p3'']))) =
     [playerMoved \<lparr>player_id = ''p1'', interactableID = None\<rparr>,
      interactableUpdate
        \<lparr>model_id = ''area'', difficulty = 10,
         correct = [\<lparr>display = Some ArrowLeft, direction = Some L, duration = 1\<rparr>],
         userClicks = [\<lparr>display = Some ArrowRight, direction = Some R, duration = 1 / 2\<rparr>],
         leaderboard = [Some \<lparr>userId = ''p2'', score = 100\<rparr>],
         currentScore = \<lparr>userId = ''p1'', score = 40\<rparr>, timer = 120\<rparr>,
      interactableUpdate
        \<lparr>model_id = ''area'', difficulty = 10,
         correct = [\<lparr>display = Some ArrowLeft, direction = Some L, duration = 1\<rparr>],
         userClicks = [\<lparr>display = Some ArrowRight, direction = Some R, duration = 1 / 2\<rparr>],
         leaderboard = [Some \<lparr>userId = ''p2'', score = 100\<rparr>],
         currentScore = \<lparr>userId = ''p1'', score = 40\<rparr>, timer = 120\<rparr>]"
proof -
  have h1: "player_id testPlayer \<in> set (occupants' (testArea [''p1'', ''p2'', ''p3'']))"
    by (simp add: testArea_def testPlayer_def)
  have h2: "2 \<le> card (set (occupants' (testArea [''p1'', ''p2'', ''p3''])))"
    by (simp add: testArea_def)
  show ?thesis
    using h1 h2 C8_remove_with_others [OF h1 h2]
    by (simp add: testArea_def testPlayer_def)
qed

end
